theory Spec2Isabelle
  imports Complex_Main
begin

section \<open>Isometries of the upper half plane: matrices\<close>

text \<open>
  A matrix of the UHP model is a real 2 x 2 matrix, kept row by row as the source's
  \<open>A.list()\<close> gives it: \<open>Mat2 a0 a1 a2 a3\<close> is the matrix with rows \<open>(a0, a1)\<close> and
  \<open>(a2, a3)\<close>. Entries are exact reals, as the entries of a matrix over the rationals
  or the symbolic ring are; \<open>classification\<close> works on the 53-bit approximation
  \<open>self._matrix.n()\<close> of the matrix, which is modelled below.
\<close>

datatype mat2 = Mat2 real real real real

fun det :: "mat2 \<Rightarrow> real" where
  "det (Mat2 a0 a1 a2 a3) = a0 * a3 - a1 * a2"

fun trace :: "mat2 \<Rightarrow> real" where
  "trace (Mat2 a0 a1 a2 a3) = a0 + a3"

text \<open>\<open>A / s\<close>: every entry divided by the scalar \<open>s\<close>.\<close>

fun divide_by :: "mat2 \<Rightarrow> real \<Rightarrow> mat2" where
  "divide_by (Mat2 a0 a1 a2 a3) s = Mat2 (a0 / s) (a1 / s) (a2 / s) (a3 / s)"

text \<open>\<open>c * A\<close>: every entry multiplied by the scalar \<open>c\<close>.\<close>

fun scale :: "real \<Rightarrow> mat2 \<Rightarrow> mat2" where
  "scale c (Mat2 a0 a1 a2 a3) = Mat2 (c * a0) (c * a1) (c * a2) (c * a3)"

definition identity_matrix :: mat2 where
  "identity_matrix = Mat2 1 0 0 1"

text \<open>
  Matrices of one size are added, subtracted and multiplied; the 2 x 2 real matrices
  form a ring under the host's matrix arithmetic.
\<close>

instantiation mat2 :: ring
begin

definition zero_mat2 :: mat2 where
  "zero_mat2 = Mat2 0 0 0 0"

fun plus_mat2 :: "mat2 \<Rightarrow> mat2 \<Rightarrow> mat2" where
  "plus_mat2 (Mat2 a0 a1 a2 a3) (Mat2 b0 b1 b2 b3) = Mat2 (a0 + b0) (a1 + b1) (a2 + b2) (a3 + b3)"

fun minus_mat2 :: "mat2 \<Rightarrow> mat2 \<Rightarrow> mat2" where
  "minus_mat2 (Mat2 a0 a1 a2 a3) (Mat2 b0 b1 b2 b3) = Mat2 (a0 - b0) (a1 - b1) (a2 - b2) (a3 - b3)"

fun uminus_mat2 :: "mat2 \<Rightarrow> mat2" where
  "uminus_mat2 (Mat2 a0 a1 a2 a3) = Mat2 (- a0) (- a1) (- a2) (- a3)"

fun times_mat2 :: "mat2 \<Rightarrow> mat2 \<Rightarrow> mat2" where
  "times_mat2 (Mat2 a0 a1 a2 a3) (Mat2 b0 b1 b2 b3) =
     Mat2 (a0 * b0 + a1 * b2) (a0 * b1 + a1 * b3) (a2 * b0 + a3 * b2) (a2 * b1 + a3 * b3)"

instance
proof
  fix a b c :: mat2
  show "a + b + c = a + (b + c)"
    by (cases a; cases b; cases c) simp
  show "a + b = b + a"
    by (cases a; cases b) simp
  show "0 + a = a"
    by (cases a) (simp add: zero_mat2_def)
  show "- a + a = 0"
    by (cases a) (simp add: zero_mat2_def)
  show "a - b = a + - b"
    by (cases a; cases b) simp
  show "a * b * c = a * (b * c)"
    by (cases a; cases b; cases c) (simp add: algebra_simps)
  show "(a + b) * c = a * c + b * c"
    by (cases a; cases b; cases c) (simp add: algebra_simps)
  show "a * (b + c) = a * b + a * c"
    by (cases a; cases b; cases c) (simp add: algebra_simps)
qed

end

section \<open>Errors\<close>

text \<open>
  Every exception the modelled code raises is a value: the Python exception class with
  the name or the constant part of the message it carries. \<open>NameError\<close> is what Python
  raises when a name is read that nothing has bound, \<open>AttributeError\<close> when an object
  has no attribute of that name, \<open>ZeroDivisionError\<close> stands for a division by an
  exact zero, and \<open>InvalidIsometry\<close> for whatever the model's \<open>isometry_test\<close> raises on
  a matrix it rejects.
\<close>

datatype error =
    ValueError string
  | TypeError string
  | NotImplementedError string
  | NameError string
  | AttributeError string
  | ZeroDivisionError
  | InvalidIsometry

section \<open>The names the module binds\<close>

text \<open>
  A function of the module reads a global name from the module's namespace and then
  from Python's builtins. The namespace of \<open>hyperbolic_isometry.py\<close> holds what its
  import statements (lines 43 to 52) and its class statements bind; the builtins
  listed are those the modelled methods read. The methods of \<open>HyperbolicIsometryUHP\<close>
  also read \<open>sqrt\<close>, \<open>arccosh\<close>, \<open>sign\<close> and \<open>RDF\<close>, which are in neither list.
\<close>

definition module_globals :: "string list" where
  "module_globals =
     [''Hom'', ''Morphism'', ''lazy_import'', ''lazy_attribute'', ''vector'', ''infinity'',
      ''EPSILON'', ''latex'', ''CC'', ''real'', ''imag'', ''HyperbolicIsometry'',
      ''HyperbolicIsometryUHP'', ''HyperbolicIsometryPD'', ''HyperbolicIsometryKM'',
      ''HyperbolicIsometryHM'']"

definition python_builtins :: "string list" where
  "python_builtins =
     [''abs'', ''bool'', ''isinstance'', ''str'', ''range'', ''getattr'', ''ValueError'',
      ''TypeError'', ''NotImplementedError'', ''IndexError'', ''AttributeError'']"

definition module_names :: "string list" where
  "module_names = module_globals @ python_builtins"

section \<open>53-bit arithmetic\<close>

text \<open>
  \<open>self._matrix.n()\<close> is a matrix over the host's real field of 53 bits of precision:
  a number of that field is zero or \<open>m * 2^e\<close> with an integer \<open>m\<close> of at most 53 bits,
  the exponent range is taken as unbounded, and every operation returns the exact result
  rounded to the nearest such number, ties to the even one. \<open>round53 x\<close> is that rounding:
  \<open>expo x\<close> is the exponent of the leading bit of \<open>x\<close>, \<open>ulp x\<close> the weight of the last
  of its 53 bits.
\<close>

definition expo :: "real \<Rightarrow> int" where
  "expo x = \<lfloor>log 2 \<bar>x\<bar>\<rfloor>"

definition ulp :: "real \<Rightarrow> real" where
  "ulp x = 2 powr (real_of_int (expo x) - 52)"

definition round_even :: "real \<Rightarrow> int" where
  "round_even y =
     (let f = \<lfloor>y\<rfloor> in
      if y - real_of_int f < 1 / 2 then f
      else if y - real_of_int f > 1 / 2 then f + 1
      else if even f then f else f + 1)"

definition round53 :: "real \<Rightarrow> real" where
  "round53 x = (if x = 0 then 0 else real_of_int (round_even (x / ulp x)) * ulp x)"

definition add53 :: "real \<Rightarrow> real \<Rightarrow> real" where
  "add53 x y = round53 (x + y)"

definition sub53 :: "real \<Rightarrow> real \<Rightarrow> real" where
  "sub53 x y = round53 (x - y)"

definition mul53 :: "real \<Rightarrow> real \<Rightarrow> real" where
  "mul53 x y = round53 (x * y)"

definition div53 :: "real \<Rightarrow> real \<Rightarrow> real" where
  "div53 x y = round53 (x / y)"

definition sqrt53 :: "real \<Rightarrow> real" where
  "sqrt53 x = round53 (sqrt x)"

definition sqr53 :: "real \<Rightarrow> real" where
  "sqr53 x = round53 (x\<^sup>2)"

text \<open>
  The matrix operations \<open>classification\<close> calls, on 53-bit matrices: \<open>A.n()\<close> rounds
  every entry; the determinant of a 2 x 2 matrix is \<open>a0 * a3 - a1 * a2\<close>; the trace is
  \<open>a0 + a3\<close>; and a matrix divided by a scalar is the matrix times the inverse of the
  scalar.
\<close>

fun numerical_approx :: "mat2 \<Rightarrow> mat2" where
  "numerical_approx (Mat2 a0 a1 a2 a3) = Mat2 (round53 a0) (round53 a1) (round53 a2) (round53 a3)"

fun det53 :: "mat2 \<Rightarrow> real" where
  "det53 (Mat2 a0 a1 a2 a3) = sub53 (mul53 a0 a3) (mul53 a1 a2)"

fun trace53 :: "mat2 \<Rightarrow> real" where
  "trace53 (Mat2 a0 a1 a2 a3) = add53 a0 a3"

fun scale53 :: "mat2 \<Rightarrow> real \<Rightarrow> mat2" where
  "scale53 (Mat2 a0 a1 a2 a3) c = Mat2 (mul53 a0 c) (mul53 a1 c) (mul53 a2 c) (mul53 a3 c)"

section \<open>HyperbolicIsometryUHP: classification\<close>

text \<open>
  The tolerance \<open>EPSILON\<close> is imported from \<open>hyperbolic_constants\<close>, which is not among
  the sources; every function takes it as the parameter \<open>eps\<close>, the number the
  comparisons see. \<open>EPSILON_double\<close> is the 53-bit number nearest to \<open>10^-9\<close>, which is
  what Python's \<open>10**-9\<close> is; the examples are evaluated at it.

  \<open>normalised53 A\<close> is the matrix \<open>A\<close> of the source after its first two statements,
  \<open>A = self._matrix.n()\<close> and \<open>A = A / (abs(A.det()).sqrt())\<close>.
\<close>

definition EPSILON_double :: real where
  "EPSILON_double = 4835703278458517 / 2 ^ 82"

definition normalised53 :: "mat2 \<Rightarrow> mat2" where
  "normalised53 A0 =
     (let A = numerical_approx A0
      in scale53 A (div53 1 (sqrt53 \<bar>det53 A\<bar>)))"

text \<open>The identity test of \<open>classification\<close>:
  \<open>(a[0] - 1)**2 + a[1]**2 + a[2]**2 + (a[3] - 1)**2 < EPSILON\<close>.\<close>

fun near_identity :: "real \<Rightarrow> mat2 \<Rightarrow> bool" where
  "near_identity eps (Mat2 a0 a1 a2 a3) \<longleftrightarrow>
     add53 (add53 (add53 (sqr53 (sub53 a0 1)) (sqr53 a1)) (sqr53 a2)) (sqr53 (sub53 a3 1)) < eps"

text \<open>
  When the determinant of \<open>self._matrix.n()\<close> is zero, the 53-bit division by its square
  root raises nothing: the inverse is infinite, so every entry of the normalised matrix
  is infinite or not a number. Its determinant is then not a number or is infinite with
  the sign of \<open>a0 * a3\<close> (which would make the first determinant nonzero, were it
  positive), and its trace is infinite or not a number, so \<open>A.det() > 0\<close> and
  \<open>tau < EPSILON\<close> are both false and the method returns the last class. That case is
  the first line of the model; in every other case all values are finite.
\<close>

definition classification :: "real \<Rightarrow> mat2 \<Rightarrow> error + string" where
  "classification eps A0 =
     (if det53 (numerical_approx A0) = 0 then Inr ''orientation-reversing hyperbolic''
      else
        let A = normalised53 A0;
            tau = \<bar>trace53 A\<bar>
        in
          if det53 A > 0 then
            (let tf = near_identity eps A in
             if tf then Inr ''identity''
             else if sub53 tau 2 < - eps then Inr ''elliptic''
             else if sub53 tau 2 > - eps \<and> sub53 tau 2 < eps then Inr ''parabolic''
             else if sub53 tau 2 > eps then Inr ''hyperbolic''
             else Inl (ValueError ''something went wrong with classification''))
          else
            (if tau < eps then Inr ''reflection''
             else Inr ''orientation-reversing hyperbolic''))"

text \<open>The six classes \<open>classification\<close> names.\<close>

definition classes :: "string list" where
  "classes =
     [''identity'', ''elliptic'', ''parabolic'', ''hyperbolic'', ''reflection'',
      ''orientation-reversing hyperbolic'']"

text \<open>A number is on the grid of \<open>2^-52\<close> when it is an integer multiple of \<open>2^-52\<close>, as
  every 53-bit number of absolute value at least one is.\<close>

definition on_grid52 :: "real \<Rightarrow> bool" where
  "on_grid52 x \<longleftrightarrow> (\<exists>k::int. x = real_of_int k / 2 ^ 52)"

subsection \<open>The classification rule in the specification's words\<close>

text \<open>
  The specification states the rule on the exact matrix \<open>M = A / sqrt(|det A|)\<close>, with
  \<open>tau = |trace M|\<close>, and asks whether \<open>M\<close> is within \<open>EPSILON\<close> of the identity matrix.
  \<open>normalise\<close> is that exact \<open>M\<close>, and \<open>within_of_identity\<close> reads "within \<open>EPSILON\<close>" as
  a distance: the Euclidean distance between the two matrices is below \<open>EPSILON\<close>.
\<close>

definition normalise :: "mat2 \<Rightarrow> mat2" where
  "normalise A = divide_by A (sqrt \<bar>det A\<bar>)"


section \<open>HyperbolicIsometryUHP: translation length\<close>

text \<open>
  \<open>translation_length_in names\<close> is the method run in a module whose namespace binds
  \<open>names\<close>; \<open>translation_length\<close> is the method of the module as it is. Its first
  statement reads \<open>sqrt\<close>, its \<open>return\<close> reads \<open>arccosh\<close>; where they are bound they are
  the host's exact functions, and the matrix is divided exactly, which raises for a
  zero divisor. The list of classes the class is tested against is kept letter by letter.
\<close>

definition translation_length_in :: "string list \<Rightarrow> real \<Rightarrow> mat2 \<Rightarrow> error + real" where
  "translation_length_in names eps A =
     (if ''sqrt'' \<notin> set names then Inl (NameError ''sqrt'')
      else if det A = 0 then Inl ZeroDivisionError
      else
        let d = sqrt ((det A)\<^sup>2);
            tau = sqrt ((trace (divide_by A (sqrt d)))\<^sup>2)
        in
          case classification eps A of
            Inl e \<Rightarrow> Inl e
          | Inr cls \<Rightarrow>
              if cls \<in> set [''hyperbolic'', ''oriention-reversing hyperbolic'']
              then (if ''arccosh'' \<notin> set names then Inl (NameError ''arccosh'')
                    else Inr (2 * arcosh (tau / 2)))
              else Inl (TypeError ''translation length is only defined for hyperbolic transformations''))"

definition translation_length :: "real \<Rightarrow> mat2 \<Rightarrow> error + real" where
  "translation_length eps A = translation_length_in module_names eps A"

section \<open>HyperbolicIsometryUHP: fixed points\<close>

text \<open>
  A fixed point is a complex number or the point at infinity. \<open>fixed_point_set_in names\<close>
  is the method run in a module whose namespace binds \<open>names\<close>, \<open>fixed_point_set\<close> the
  method of the module as it is. Its first statement reads \<open>sqrt\<close> and the elliptic
  branch reads \<open>sign\<close>; where they are bound, the square root is the host's principal
  one (\<open>sqrt(tau - 4)\<close> is imaginary for an elliptic isometry). The last branch reads
  the eigenvectors of the matrix from the host algebra system; it is the parameter
  \<open>eigen\<close>.
\<close>

datatype point = Finite complex | Infinity

definition fixed_point_set_in ::
  "string list \<Rightarrow> real \<Rightarrow> (mat2 \<Rightarrow> error + point list) \<Rightarrow> mat2 \<Rightarrow> error + point list" where
  "fixed_point_set_in names eps eigen A =
     (if ''sqrt'' \<notin> set names then Inl (NameError ''sqrt'')
      else if det A = 0 then Inl ZeroDivisionError
      else
        let d = sqrt ((det A)\<^sup>2);
            M = divide_by A (sqrt d);
            tau = (trace M)\<^sup>2
        in
          case classification eps A of
            Inl e \<Rightarrow> Inl e
          | Inr M_cls \<Rightarrow>
              (case M of Mat2 m00 m01 m10 m11 \<Rightarrow>
                if M_cls = ''identity'' then
                  Inl (ValueError ''the identity transformation fixes the entire hyperbolic plane'')
                else if M_cls = ''parabolic'' then
                  (if \<bar>m10\<bar> < eps then Inr [Infinity]
                   else if 2 * m10 = 0 then Inl ZeroDivisionError
                   else Inr [Finite (complex_of_real ((m00 - m11) / (2 * m10)))])
                else if M_cls = ''elliptic'' then
                  (let d = csqrt (complex_of_real (tau - 4)) in
                   if ''sign'' \<notin> set names then Inl (NameError ''sign'')
                   else if 2 * m10 = 0 then Inl ZeroDivisionError
                   else Inr [Finite ((complex_of_real (m00 - m11) + complex_of_real (sgn m10) * d)
                                      / complex_of_real (2 * m10))])
                else if M_cls = ''hyperbolic'' then
                  (if m10 \<noteq> 0 then
                     (let d = csqrt (complex_of_real (tau - 4));
                          p_1 = (complex_of_real (m00 - m11) + d) / complex_of_real (2 * m10);
                          p_2 = (complex_of_real (m00 - m11) - d) / complex_of_real (2 * m10)
                      in Inr [Finite p_1, Finite p_2])
                   else if m11 - m00 = 0 then Inl ZeroDivisionError
                   else Inr [Finite (complex_of_real (m01 / (m11 - m00))), Infinity])
                else eigen M))"

definition fixed_point_set ::
  "real \<Rightarrow> (mat2 \<Rightarrow> error + point list) \<Rightarrow> mat2 \<Rightarrow> error + point list" where
  "fixed_point_set eps eigen A = fixed_point_set_in module_names eps eigen A"

section \<open>HyperbolicIsometry: models, isometries and their operands\<close>

text \<open>
  The four models of the hyperbolic plane, with the short names the docstrings of
  \<open>model_name\<close> show. A model object is unique, so the source's
  \<open>self.domain() is other.domain()\<close> is equality of models.
\<close>

datatype model = UHP | PD | KM | HM

fun short_name :: "model \<Rightarrow> string" where
  "short_name UHP = ''UHP''"
| "short_name PD = ''PD''"
| "short_name KM = ''KM''"
| "short_name HM = ''HM''"

text \<open>An isometry holds the model it lives in (\<open>self.domain()\<close>) and its matrix
  (\<open>self._matrix\<close>); the matrix type \<open>'m\<close> is the model's.\<close>

record 'm isometry =
  domain :: model
  matrix :: 'm

text \<open>A point holds its model and its coordinates, a geodesic its model and its two
  end points (\<open>other.start()\<close>, \<open>other.end()\<close>).\<close>

record 'c point_obj =
  point_domain :: model
  coordinates :: 'c

record 'c geodesic =
  geodesic_domain :: model
  start :: "'c point_obj"
  end' :: "'c point_obj"

text \<open>
  The constructor \<open>HyperbolicIsometry.__init__(self, model, A)\<close>. The test
  \<open>model.isometry_test(A)\<close> belongs to the model classes, which are not among the
  sources; it is the parameter \<open>isometry_test\<close>, true when the test does not raise.
\<close>

definition new_isometry :: "(model \<Rightarrow> 'm \<Rightarrow> bool) \<Rightarrow> model \<Rightarrow> 'm \<Rightarrow> error + 'm isometry" where
  "new_isometry isometry_test mdl A =
     (if isometry_test mdl A then Inr \<lparr>domain = mdl, matrix = A\<rparr> else Inl InvalidIsometry)"

text \<open>
  \<open>HyperbolicIsometry.__eq__\<close>. Whether the model's group is projective, and what the
  host's \<open>abs\<close> makes of a matrix (a number, or an exception), are parameters: neither the
  model classes nor the host's matrices are among the sources. The two calls of \<open>abs\<close>
  come first, in the order of the source.
\<close>

definition eq_isometry ::
  "(model \<Rightarrow> bool) \<Rightarrow> ('m::{plus, minus} \<Rightarrow> error + real) \<Rightarrow> real \<Rightarrow>
     'm isometry \<Rightarrow> 'm isometry \<Rightarrow> error + bool" where
  "eq_isometry is_isometry_group_projective matrix_abs eps self other =
     (case matrix_abs (matrix self - matrix other) of
        Inl e \<Rightarrow> Inl e
      | Inr p \<Rightarrow>
          (case matrix_abs (matrix self + matrix other) of
             Inl e \<Rightarrow> Inl e
           | Inr q \<Rightarrow>
               (let pos_matrix = (p < eps);
                    neg_matrix = (q < eps)
                in
                  if is_isometry_group_projective (domain self)
                  then Inr (domain self = domain other \<and> (pos_matrix \<or> neg_matrix))
                  else Inr (domain self = domain other \<and> pos_matrix))))"

text \<open>
  What the host's \<open>abs\<close> makes of a matrix is not in the sources. Two hosts are
  modelled, on 2 x 2 matrices: in the host of the code's time the absolute value of a
  matrix is its determinant; in a host whose matrices define no absolute value, \<open>abs\<close>
  raises \<open>TypeError\<close>.
\<close>

definition abs_is_determinant :: "mat2 \<Rightarrow> error + real" where
  "abs_is_determinant M = Inr (det M)"

definition abs_is_unsupported :: "mat2 \<Rightarrow> error + real" where
  "abs_is_unsupported M = Inl (TypeError ''bad operand type for abs()'')"

text \<open>
  The right operand of \<open>__mul__\<close>: an isometry, a point, a geodesic, or any other object
  that answers \<open>model_name()\<close> (kept as the name it answers). The product is an
  isometry, a point, a geodesic, or Python's \<open>None\<close>.
\<close>

datatype ('m, 'c) operand =
    IsometryOperand "'m isometry"
  | PointOperand "'c point_obj"
  | GeodesicOperand "'c geodesic"
  | OtherOperand string

datatype ('m, 'c) product =
    IsometryProduct "'m isometry"
  | PointProduct "'c point_obj"
  | GeodesicProduct "'c geodesic"
  | NoneProduct

fun model_name :: "('m, 'c) operand \<Rightarrow> string" where
  "model_name (IsometryOperand B) = short_name (domain B)"
| "model_name (PointOperand p) = short_name (point_domain p)"
| "model_name (GeodesicOperand g) = short_name (geodesic_domain g)"
| "model_name (OtherOperand name) = name"

text \<open>
  \<open>HyperbolicIsometry.__mul__\<close>. The branches for a point and for a geodesic begin by
  reading \<open>self._model\<close>, an attribute that \<open>__init__\<close> never sets, so they raise
  \<open>AttributeError\<close> before anything is computed. The last branch builds a
  \<open>NotImplementedError\<close> without raising it, so the method falls off its end and returns
  \<open>None\<close>.
\<close>

definition mul ::
  "(model \<Rightarrow> 'm::times \<Rightarrow> bool) \<Rightarrow> 'm isometry \<Rightarrow> ('m, 'c) operand \<Rightarrow> error + ('m, 'c) product" where
  "mul isometry_test self other =
     (if short_name (domain self) \<noteq> model_name other
      then Inl (TypeError ''not in the same model'')
      else
        case other of
          IsometryOperand B \<Rightarrow>
            (case new_isometry isometry_test (domain self) (matrix self * matrix B) of
               Inl e \<Rightarrow> Inl e
             | Inr C \<Rightarrow> Inr (IsometryProduct C))
        | PointOperand p \<Rightarrow> Inl (AttributeError ''_model'')
        | GeodesicOperand g \<Rightarrow> Inl (AttributeError ''_model'')
        | OtherOperand name \<Rightarrow> Inr NoneProduct)"

section \<open>The isometry tests of the models\<close>

text \<open>
  Modelled from the spec: the model classes and their \<open>isometry_test\<close> are not among the
  sources. The specification asks of a valid isometry matrix that its
  determinant is not zero and, for the Klein and hyperboloid models, that it preserves
  the defining bilinear form up to \<open>EPSILON\<close>. \<open>uhp_example_host\<close> is the test of the
  upper half plane on 2 x 2 matrices.
\<close>

definition uhp_example_host :: "model \<Rightarrow> mat2 \<Rightarrow> bool" where
  "uhp_example_host mdl A \<longleftrightarrow> det A \<noteq> 0"

text \<open>
  Modelled from the spec: the matrices of the hyperboloid model are real 3 x 3 matrices,
  kept row by row, and the form they are to preserve is that of the matrix
  \<open>LORENTZ_GRAM\<close> with diagonal \<open>1, 1, -1\<close>.
\<close>

datatype mat3 = Mat3 real real real real real real real real real

instantiation mat3 :: "{plus, minus, times}"
begin

fun plus_mat3 :: "mat3 \<Rightarrow> mat3 \<Rightarrow> mat3" where
  "plus_mat3 (Mat3 a0 a1 a2 a3 a4 a5 a6 a7 a8) (Mat3 b0 b1 b2 b3 b4 b5 b6 b7 b8) =
     Mat3 (a0 + b0) (a1 + b1) (a2 + b2) (a3 + b3) (a4 + b4) (a5 + b5) (a6 + b6) (a7 + b7) (a8 + b8)"

fun minus_mat3 :: "mat3 \<Rightarrow> mat3 \<Rightarrow> mat3" where
  "minus_mat3 (Mat3 a0 a1 a2 a3 a4 a5 a6 a7 a8) (Mat3 b0 b1 b2 b3 b4 b5 b6 b7 b8) =
     Mat3 (a0 - b0) (a1 - b1) (a2 - b2) (a3 - b3) (a4 - b4) (a5 - b5) (a6 - b6) (a7 - b7) (a8 - b8)"

fun times_mat3 :: "mat3 \<Rightarrow> mat3 \<Rightarrow> mat3" where
  "times_mat3 (Mat3 a0 a1 a2 a3 a4 a5 a6 a7 a8) (Mat3 b0 b1 b2 b3 b4 b5 b6 b7 b8) =
     Mat3 (a0 * b0 + a1 * b3 + a2 * b6) (a0 * b1 + a1 * b4 + a2 * b7) (a0 * b2 + a1 * b5 + a2 * b8)
          (a3 * b0 + a4 * b3 + a5 * b6) (a3 * b1 + a4 * b4 + a5 * b7) (a3 * b2 + a4 * b5 + a5 * b8)
          (a6 * b0 + a7 * b3 + a8 * b6) (a6 * b1 + a7 * b4 + a8 * b7) (a6 * b2 + a7 * b5 + a8 * b8)"

instance ..

end

fun transpose3 :: "mat3 \<Rightarrow> mat3" where
  "transpose3 (Mat3 a0 a1 a2 a3 a4 a5 a6 a7 a8) = Mat3 a0 a3 a6 a1 a4 a7 a2 a5 a8"

definition LORENTZ_GRAM :: mat3 where
  "LORENTZ_GRAM = Mat3 1 0 0 0 1 0 0 0 (- 1)"

text \<open>Modelled from the spec: how far a matrix is from preserving the form,
  \<open>A * LORENTZ_GRAM * A^T - LORENTZ_GRAM\<close>, with the sum of the squares of the entries
  of a matrix and the largest of their absolute values.\<close>

definition form_defect :: "mat3 \<Rightarrow> mat3" where
  "form_defect A = A * LORENTZ_GRAM * transpose3 A - LORENTZ_GRAM"

fun sum_of_squares :: "mat3 \<Rightarrow> real" where
  "sum_of_squares (Mat3 a0 a1 a2 a3 a4 a5 a6 a7 a8) =
     a0\<^sup>2 + a1\<^sup>2 + a2\<^sup>2 + a3\<^sup>2 + a4\<^sup>2 + a5\<^sup>2 + a6\<^sup>2 + a7\<^sup>2 + a8\<^sup>2"

primrec max_abs_entry :: "mat3 \<Rightarrow> real" where
  "max_abs_entry (Mat3 a0 a1 a2 a3 a4 a5 a6 a7 a8) =
     max \<bar>a0\<bar> (max \<bar>a1\<bar> (max \<bar>a2\<bar> (max \<bar>a3\<bar> (max \<bar>a4\<bar>
       (max \<bar>a5\<bar> (max \<bar>a6\<bar> (max \<bar>a7\<bar> \<bar>a8\<bar>)))))))"

text \<open>
  Modelled from the spec: "preserves the form up to \<open>EPSILON\<close>" leaves open how the defect
  is measured. \<open>hm_test_squared\<close> compares the squared norm of the defect with
  \<open>EPSILON\<close>, as the identity test of \<open>classification\<close> does with its squared distance;
  \<open>hm_test_entries\<close> compares the largest entry of the defect with \<open>EPSILON\<close>.
\<close>

definition hm_test_squared :: "real \<Rightarrow> model \<Rightarrow> mat3 \<Rightarrow> bool" where
  "hm_test_squared eps mdl A \<longleftrightarrow> sum_of_squares (form_defect A) < eps"

definition hm_test_entries :: "real \<Rightarrow> model \<Rightarrow> mat3 \<Rightarrow> bool" where
  "hm_test_entries eps mdl A \<longleftrightarrow> max_abs_entry (form_defect A) < eps"

section \<open>LieAlgebras.ParentMethods: is_abelian\<close>

text \<open>
  The generators \<open>G = self.lie_algebra_generators()\<close> are a family that either belongs
  to \<open>FiniteEnumeratedSets()\<close>, and then lists its elements in order, or does not. A
  Lie algebra is its generators, the bracket \<open>x._bracket_(y)\<close> of its elements and
  its \<open>zero()\<close>.
\<close>

datatype 'g family = FiniteEnumerated "'g list" | NotFiniteEnumerated

record 'g lie_algebra =
  lie_algebra_generators :: "'g family"
  bracket :: "'g \<Rightarrow> 'g \<Rightarrow> 'g"
  zero :: 'g

definition is_abelian :: "'g lie_algebra \<Rightarrow> error + bool" where
  "is_abelian L =
     (case lie_algebra_generators L of
        NotFiniteEnumerated \<Rightarrow> Inl (NotImplementedError ''infinite number of generators'')
      | FiniteEnumerated G \<Rightarrow>
          Inr (list_all (\<lambda>x. list_all (\<lambda>y. bracket L x y = zero L) G) G))"

section \<open>Properties of the 53-bit rounding\<close>

lemma round_even_of_int: "round_even (real_of_int m) = m"
  by (simp add: round_even_def)

lemma floor_le_round_even: "\<lfloor>y\<rfloor> \<le> round_even y"
  by (simp add: round_even_def Let_def)

lemma round_even_le_ceiling: "round_even y \<le> \<lceil>y\<rceil>"
proof (cases "y = real_of_int \<lfloor>y\<rfloor>")
  case True
  then have "round_even y = \<lfloor>y\<rfloor>"
    by (metis round_even_of_int floor_of_int)
  then show ?thesis by (simp add: floor_le_ceiling)
next
  case False
  then have "\<lceil>y\<rceil> = \<lfloor>y\<rfloor> + 1"
    by (metis ceiling_altdef)
  then show ?thesis by (simp add: round_even_def Let_def)
qed

lemma expo_bounds:
  assumes "x \<noteq> 0"
  shows "2 powr real_of_int (expo x) \<le> \<bar>x\<bar>" and "\<bar>x\<bar> < 2 powr (real_of_int (expo x) + 1)"
proof -
  have "0 < \<bar>x\<bar>" using assms by simp
  then have "2 powr real_of_int (expo x) \<le> \<bar>x\<bar> \<and> \<bar>x\<bar> < 2 powr real_of_int (expo x + 1)"
    using floor_log_eq_powr_iff [of "\<bar>x\<bar>" 2 "expo x"] by (simp add: expo_def)
  then show "2 powr real_of_int (expo x) \<le> \<bar>x\<bar>" and "\<bar>x\<bar> < 2 powr (real_of_int (expo x) + 1)"
    by simp_all
qed


lemma ulp_pos: "0 < ulp x"
  by (simp add: ulp_def)

lemma scaled_bounds:
  assumes "x \<noteq> 0"
  shows "2 ^ 52 \<le> \<bar>x\<bar> / ulp x" and "\<bar>x\<bar> / ulp x < 2 ^ 53"
proof -
  have u: "ulp x * 2 ^ 52 = 2 powr real_of_int (expo x)"
  proof -
    have "ulp x * 2 powr 52 = 2 powr (real_of_int (expo x) - 52 + 52)"
      unfolding ulp_def by (simp only: powr_add)
    then show ?thesis by simp
  qed
  have v: "ulp x * 2 ^ 53 = 2 powr (real_of_int (expo x) + 1)"
  proof -
    have "ulp x * 2 powr 53 = 2 powr (real_of_int (expo x) - 52 + 53)"
      unfolding ulp_def by (simp only: powr_add)
    then show ?thesis by (simp add: add.commute)
  qed
  show "2 ^ 52 \<le> \<bar>x\<bar> / ulp x"
    using expo_bounds(1) [OF assms] u ulp_pos [of x] by (simp add: pos_le_divide_eq mult.commute)
  show "\<bar>x\<bar> / ulp x < 2 ^ 53"
    using expo_bounds(2) [OF assms] v ulp_pos [of x] by (simp add: pos_divide_less_eq mult.commute)
qed


lemma ulp_times_pow52: "ulp x * 2 ^ 52 = 2 powr real_of_int (expo x)"
proof -
  have "ulp x * 2 powr 52 = 2 powr (real_of_int (expo x) - 52 + 52)"
    unfolding ulp_def by (simp only: powr_add)
  then show ?thesis by simp
qed

lemma round53_exact:
  assumes x: "x = real_of_int k * 2 powr real_of_int j" and k: "\<bar>k\<bar> < 2 ^ 53"
  shows "round53 x = x"
proof (cases "x = 0")
  case True
  then show ?thesis by (simp add: round53_def)
next
  case False
  define e where "e = expo x"
  have "\<bar>x\<bar> = real_of_int \<bar>k\<bar> * 2 powr real_of_int j"
    using x by (simp add: abs_mult)
  moreover have "real_of_int \<bar>k\<bar> < 2 ^ 53"
    using k by (metis of_int_less_iff of_int_numeral of_int_power)
  ultimately have "\<bar>x\<bar> < 2 ^ 53 * 2 powr real_of_int j"
    by (simp add: mult_strict_right_mono)
  also have "\<dots> = 2 powr (53 + real_of_int j)"
    by (simp add: powr_add)
  finally have "\<bar>x\<bar> < 2 powr (53 + real_of_int j)" .
  moreover have "2 powr real_of_int e \<le> \<bar>x\<bar>"
    using expo_bounds(1) [OF False] by (simp add: e_def)
  ultimately have "2 powr real_of_int e < 2 powr (53 + real_of_int j)"
    by linarith
  then have "real_of_int e < 53 + real_of_int j"
    by simp
  then have ej: "e \<le> j + 52" by linarith
  define n where "n = nat (j - e + 52)"
  have n: "real_of_int j - (real_of_int e - 52) = real n"
    using ej by (simp add: n_def)
  have u: "ulp x = 2 powr (real_of_int e - 52)"
    by (simp add: ulp_def e_def)
  have "x / ulp x = (real_of_int k * 2 powr real_of_int j) / 2 powr (real_of_int e - 52)"
    unfolding u using x by simp
  also have "\<dots> = real_of_int k * (2 powr real_of_int j / 2 powr (real_of_int e - 52))"
    by simp
  also have "2 powr real_of_int j / 2 powr (real_of_int e - 52) = 2 powr (real_of_int j - (real_of_int e - 52))"
    by (simp only: powr_diff)
  also have "\<dots> = 2 ^ n"
    by (simp only: n powr_realpow zero_less_numeral)
  finally have "x / ulp x = real_of_int (k * 2 ^ n)"
    by simp
  then have "round_even (x / ulp x) = k * 2 ^ n" and "real_of_int (k * 2 ^ n) * ulp x = x"
    using ulp_pos [of x] by (simp_all only: round_even_of_int) (simp add: field_simps)
  then show ?thesis
    using False by (simp add: round53_def)
qed

lemma round53_of_int:
  assumes "\<bar>k\<bar> < 2 ^ 53"
  shows "round53 (real_of_int k) = real_of_int k"
  using round53_exact [of "real_of_int k" k 0] assms by simp

lemma round53_dyadic:
  assumes "\<bar>k\<bar> < 2 ^ 53"
  shows "round53 (real_of_int k / 2 ^ m) = real_of_int k / 2 ^ m"
proof -
  have "real_of_int k / 2 ^ m = real_of_int k * 2 powr real_of_int (- int m)"
    by (simp add: powr_minus powr_realpow divide_inverse)
  then show ?thesis
    using round53_exact [of "real_of_int k / 2 ^ m" k "- int m"] assms by simp
qed

lemma round53_ge_pow2:
  assumes "2 powr real_of_int p \<le> x"
  shows "2 powr real_of_int p \<le> round53 x"
proof -
  have pos: "0 < x" using assms by (smt (verit) powr_gt_zero)
  then have nz: "x \<noteq> 0" by simp
  have "\<bar>x\<bar> = x" using pos by simp
  then have "2 powr real_of_int p < 2 powr (real_of_int (expo x) + 1)"
    using assms expo_bounds(2) [OF nz] by linarith
  then have "real_of_int p < real_of_int (expo x) + 1" by simp
  then have pe: "p \<le> expo x" by linarith
  have "2 ^ 52 \<le> x / ulp x"
    using scaled_bounds(1) [OF nz] pos by simp
  then have "(2 ^ 52 :: int) \<le> \<lfloor>x / ulp x\<rfloor>"
    by (simp add: le_floor_iff)
  then have "(2 ^ 52 :: int) \<le> round_even (x / ulp x)"
    using floor_le_round_even [of "x / ulp x"] by linarith
  then have "2 ^ 52 \<le> real_of_int (round_even (x / ulp x))"
    by (metis of_int_le_iff of_int_numeral of_int_power)
  then have "2 ^ 52 * ulp x \<le> real_of_int (round_even (x / ulp x)) * ulp x"
    using ulp_pos [of x] by (simp add: mult_right_mono)
  then have "2 powr real_of_int (expo x) \<le> round53 x"
    using nz ulp_times_pow52 [of x] by (simp add: round53_def mult.commute)
  moreover have "2 powr real_of_int p \<le> 2 powr real_of_int (expo x)"
    using pe by simp
  ultimately show ?thesis by linarith
qed

lemma round53_le_neg_pow2:
  assumes "x \<le> - (2 powr real_of_int p)"
  shows "round53 x \<le> - (2 powr real_of_int p)"
proof -
  have neg: "x < 0" using assms by (smt (verit) powr_gt_zero)
  then have nz: "x \<noteq> 0" by simp
  have "\<bar>x\<bar> = - x" using neg by simp
  then have "2 powr real_of_int p < 2 powr (real_of_int (expo x) + 1)"
    using assms expo_bounds(2) [OF nz] by linarith
  then have "real_of_int p < real_of_int (expo x) + 1" by simp
  then have pe: "p \<le> expo x" by linarith
  have "2 ^ 52 \<le> - x / ulp x"
    using scaled_bounds(1) [OF nz] neg by simp
  then have "x / ulp x \<le> - (2 ^ 52)"
    by simp
  then have "\<lceil>x / ulp x\<rceil> \<le> - (2 ^ 52 :: int)"
    by (simp add: ceiling_le_iff)
  then have "round_even (x / ulp x) \<le> - (2 ^ 52 :: int)"
    using round_even_le_ceiling [of "x / ulp x"] by linarith
  then have "real_of_int (round_even (x / ulp x)) \<le> - (2 ^ 52)"
    by (metis of_int_le_iff of_int_numeral of_int_power of_int_minus)
  then have "real_of_int (round_even (x / ulp x)) * ulp x \<le> - (2 ^ 52) * ulp x"
    using ulp_pos [of x] mult_right_mono [of "real_of_int (round_even (x / ulp x))" "- (2 ^ 52)" "ulp x"]
    by simp
  then have "round53 x \<le> - (2 powr real_of_int (expo x))"
    using nz ulp_times_pow52 [of x] by (simp add: round53_def mult.commute)
  moreover have "2 powr real_of_int p \<le> 2 powr real_of_int (expo x)"
    using pe by simp
  ultimately show ?thesis by linarith
qed

lemma round53_nonneg:
  assumes "0 \<le> x"
  shows "0 \<le> round53 x"
proof (cases "x = 0")
  case True
  then show ?thesis by (simp add: round53_def)
next
  case False
  then have "2 powr real_of_int (expo x) \<le> x"
    using expo_bounds(1) [OF False] assms by simp
  then have "2 powr real_of_int (expo x) \<le> round53 x"
    by (rule round53_ge_pow2)
  then show ?thesis by (smt (verit) powr_gt_zero)
qed

lemma round53_abs_le:
  assumes "x \<noteq> 0"
  shows "\<bar>round53 x\<bar> \<le> 2 powr (real_of_int (expo x) + 1)"
proof -
  have "\<bar>ulp x\<bar> = ulp x"
    using ulp_pos [of x] by simp
  then have "\<bar>x / ulp x\<bar> = \<bar>x\<bar> / ulp x"
    by (simp only: abs_divide)
  then have b: "\<bar>x / ulp x\<bar> < 2 ^ 53"
    using scaled_bounds(2) [OF assms] by linarith
  then have b1: "x / ulp x \<le> 2 ^ 53" and b2: "- (2 ^ 53) \<le> x / ulp x"
    by linarith+
  have "\<lceil>x / ulp x\<rceil> \<le> (2 ^ 53 :: int)"
    using b1 by (simp add: ceiling_le_iff)
  then have up: "round_even (x / ulp x) \<le> 2 ^ 53"
    using round_even_le_ceiling [of "x / ulp x"] by linarith
  have "- (2 ^ 53 :: int) \<le> \<lfloor>x / ulp x\<rfloor>"
    using b2 by (simp add: le_floor_iff)
  then have lo: "- (2 ^ 53) \<le> round_even (x / ulp x)"
    using floor_le_round_even [of "x / ulp x"] by linarith
  have "\<bar>round_even (x / ulp x)\<bar> \<le> 2 ^ 53"
    using up lo by linarith
  then have "\<bar>real_of_int (round_even (x / ulp x))\<bar> \<le> 2 ^ 53"
    by (metis of_int_abs of_int_le_iff of_int_numeral of_int_power)
  then have "\<bar>real_of_int (round_even (x / ulp x))\<bar> * ulp x \<le> 2 ^ 53 * ulp x"
    using ulp_pos [of x] by (simp add: mult_right_mono)
  moreover have "2 ^ 53 * ulp x = 2 powr (real_of_int (expo x) + 1)"
  proof -
    have "ulp x * 2 powr 53 = 2 powr (real_of_int (expo x) - 52 + 53)"
      unfolding ulp_def by (simp only: powr_add)
    then show ?thesis by (simp add: add.commute mult.commute)
  qed
  ultimately have "\<bar>real_of_int (round_even (x / ulp x))\<bar> * ulp x
      \<le> 2 powr (real_of_int (expo x) + 1)"
    by (simp only:)
  moreover have "\<bar>round53 x\<bar> = \<bar>real_of_int (round_even (x / ulp x))\<bar> * ulp x"
    using assms ulp_pos [of x] by (simp add: round53_def abs_mult)
  ultimately show ?thesis
    by (simp only:)
qed

lemma round53_grid:
  assumes "1 \<le> \<bar>round53 x\<bar>"
  shows "\<exists>k::int. round53 x = real_of_int k / 2 ^ 52"
proof -
  have nz: "x \<noteq> 0" using assms by (auto simp: round53_def)
  define m where "m = round_even (x / ulp x)"
  have r: "round53 x = real_of_int m * ulp x"
    using nz by (simp add: round53_def m_def)
  show ?thesis
  proof (cases "0 \<le> expo x")
    case True
    define n where "n = nat (expo x)"
    have "real_of_int (expo x) = real n" using True by (simp add: n_def)
    then have "2 powr real_of_int (expo x) = 2 ^ n"
      by (simp only: powr_realpow zero_less_numeral)
    then have "ulp x = 2 ^ n / 2 ^ 52"
      using ulp_times_pow52 [of x] by (simp add: field_simps)
    then have "round53 x = real_of_int (m * 2 ^ n) / 2 ^ 52"
      using r by simp
    then show ?thesis by blast
  next
    case False
    then have "real_of_int (expo x) + 1 \<le> 0" by linarith
    then have "2 powr (real_of_int (expo x) + 1) \<le> 2 powr 0"
      by (rule powr_mono) simp
    then have "\<bar>round53 x\<bar> \<le> 1"
      using round53_abs_le [OF nz] by simp
    then have "\<bar>round53 x\<bar> = 1" using assms by linarith
    then have "round53 x = real_of_int (2 ^ 52) / 2 ^ 52 \<or> round53 x = real_of_int (- (2 ^ 52)) / 2 ^ 52"
      by (auto simp: abs_if split: if_splits)
    then show ?thesis by blast
  qed
qed



lemma add53_ge_one:
  assumes "1 \<le> x" and "0 \<le> y"
  shows "1 \<le> add53 x y"
proof -
  have "2 powr real_of_int 0 \<le> x + y" using assms by simp
  then have "2 powr real_of_int 0 \<le> round53 (x + y)" by (rule round53_ge_pow2)
  then show ?thesis by (simp add: add53_def)
qed

lemma sqr53_nonneg: "0 \<le> sqr53 x"
  by (simp add: sqr53_def round53_nonneg)

lemma sqr53_ge_one:
  assumes "1 \<le> \<bar>x\<bar>"
  shows "1 \<le> sqr53 x"
proof -
  have "1 \<le> x\<^sup>2" using assms abs_le_square_iff [of 1 x] by simp
  then have "2 powr real_of_int 0 \<le> x\<^sup>2" by simp
  then have "2 powr real_of_int 0 \<le> round53 (x\<^sup>2)" by (rule round53_ge_pow2)
  then show ?thesis by (simp add: sqr53_def)
qed

section \<open>Evaluating the 53-bit arithmetic\<close>

text \<open>The numbers the examples meet are integers or have a small power of two as their
  denominator; all are 53-bit numbers, so rounding returns them.\<close>

lemma round53_values:
  "round53 0 = 0" "round53 1 = 1" "round53 (- 1) = - 1" "round53 2 = 2" "round53 (- 2) = - 2"
  "round53 3 = 3" "round53 4 = 4" "round53 (- 4) = - 4" "round53 8 = 8"
  "round53 (1 / 2) = 1 / 2" "round53 (- (1 / 2)) = - (1 / 2)"
  "round53 (1 / 4) = 1 / 4" "round53 (- (1 / 4)) = - (1 / 4)"
  "round53 (5 / 4) = 5 / 4" "round53 (5 / 2) = 5 / 2" "round53 (15 / 4) = 15 / 4"
  using round53_of_int [of 0] round53_of_int [of 1] round53_of_int [of "- 1"]
    round53_of_int [of 2] round53_of_int [of "- 2"] round53_of_int [of 3] round53_of_int [of 4]
    round53_of_int [of "- 4"] round53_of_int [of 8]
    round53_dyadic [of 1 1] round53_dyadic [of "- 1" 1]
    round53_dyadic [of 1 2] round53_dyadic [of "- 1" 2]
    round53_dyadic [of 5 2] round53_dyadic [of 5 1] round53_dyadic [of 15 2]
  by simp_all

lemmas arith53_defs =
  add53_def sub53_def mul53_def div53_def sqrt53_def sqr53_def

lemma EPSILON_double_bounds: "0 < EPSILON_double" "EPSILON_double < 1 / 10 ^ 8"
  by (simp_all add: EPSILON_double_def)

lemma EPSILON_double_off_grid: "\<not> on_grid52 EPSILON_double"
proof
  assume "on_grid52 EPSILON_double"
  then obtain k :: int where "EPSILON_double = real_of_int k / 2 ^ 52"
    by (auto simp: on_grid52_def)
  then have "real_of_int (k * 2 ^ 30) = real_of_int 4835703278458517"
    by (simp add: EPSILON_double_def field_simps)
  then have "k * 2 ^ 30 = 4835703278458517"
    by (simp only: of_int_eq_iff)
  then have "even (4835703278458517 :: int)"
    by (metis even_mult_iff even_numeral even_power zero_less_numeral)
  then show False by simp
qed

section \<open>The classes of the docstring's matrices\<close>

lemma normalised53_examples:
  "normalised53 identity_matrix = identity_matrix"
  "normalised53 (scale (- 1) identity_matrix) = Mat2 (- 1) 0 0 (- 1)"
  "normalised53 (Mat2 0 1 (- 1) 0) = Mat2 0 1 (- 1) 0"
  "normalised53 (Mat2 1 1 0 1) = Mat2 1 1 0 1"
  "normalised53 (Mat2 2 0 0 (1 / 2)) = Mat2 2 0 0 (1 / 2)"
  "normalised53 (Mat2 (- 1) 0 0 1) = Mat2 (- 1) 0 0 1"
  "normalised53 (Mat2 4 0 0 (- (1 / 4))) = Mat2 4 0 0 (- (1 / 4))"
  by (simp_all add: normalised53_def identity_matrix_def arith53_defs round53_values)

lemma det53_approx_examples:
  "det53 (numerical_approx identity_matrix) = 1"
  "det53 (numerical_approx (scale (- 1) identity_matrix)) = 1"
  "det53 (numerical_approx (Mat2 0 1 (- 1) 0)) = 1"
  "det53 (numerical_approx (Mat2 1 1 0 1)) = 1"
  "det53 (numerical_approx (Mat2 2 0 0 (1 / 2))) = 1"
  "det53 (numerical_approx (Mat2 (- 1) 0 0 1)) = - 1"
  "det53 (numerical_approx (Mat2 4 0 0 (- (1 / 4)))) = - 1"
  by (simp_all add: identity_matrix_def arith53_defs round53_values)

lemma classification_identity_matrix:
  assumes "0 < eps"
  shows "classification eps identity_matrix = Inr ''identity''"
  using assms
  by (simp add: classification_def det53_approx_examples normalised53_examples)
     (simp add: identity_matrix_def arith53_defs round53_values)

lemma classification_minus_identity:
  assumes "0 < eps" and "eps \<le> 8"
  shows "classification eps (scale (- 1) identity_matrix) = Inr ''parabolic''"
  using assms
  by (simp add: classification_def det53_approx_examples normalised53_examples)
     (simp add: arith53_defs round53_values)

section \<open>The residual branch of classification\<close>

text \<open>
  The residual branch is taken when the computed \<open>tau - 2\<close> equals \<open>EPSILON\<close> or
  \<open>-EPSILON\<close>. The computed \<open>tau\<close> is a 53-bit number; below one, \<open>tau - 2\<close> is at most
  \<open>-1\<close>; from four on, it is at least \<open>2\<close>; in between, \<open>tau\<close> is a multiple of \<open>2^-52\<close>
  and so is \<open>tau - 2\<close>, which is computed exactly.
\<close>

lemma sub53_tau_off_eps:
  assumes "0 < eps" and "eps < 1" and "\<not> on_grid52 eps"
  shows "sub53 \<bar>round53 s\<bar> 2 \<noteq> eps \<and> sub53 \<bar>round53 s\<bar> 2 \<noteq> - eps"
proof -
  define t where "t = \<bar>round53 s\<bar>"
  consider "t < 1" | "1 \<le> t" "t < 4" | "4 \<le> t" by linarith
  then have "sub53 t 2 \<noteq> eps \<and> sub53 t 2 \<noteq> - eps"
  proof cases
    case 1
    then have "t - 2 \<le> - (2 powr real_of_int 0)" by simp
    then have "round53 (t - 2) \<le> - (2 powr real_of_int 0)" by (rule round53_le_neg_pow2)
    then have "sub53 t 2 \<le> - 1" by (simp add: sub53_def)
    then show ?thesis using assms(1,2) by linarith
  next
    case 2
    obtain k :: int where k: "round53 s = real_of_int k / 2 ^ 52"
      using round53_grid [of s] 2(1) by (auto simp: t_def)
    have t: "t = real_of_int \<bar>k\<bar> / 2 ^ 52"
      by (simp add: t_def k)
    have "real_of_int \<bar>k\<bar> < real_of_int (2 ^ 54)"
      using 2(2) by (simp add: t)
    then have kb: "\<bar>k\<bar> < 2 ^ 54" by (simp only: of_int_less_iff)
    have "real_of_int (2 ^ 52) \<le> real_of_int \<bar>k\<bar>"
      using 2(1) by (simp add: t)
    then have kl: "2 ^ 52 \<le> \<bar>k\<bar>" by (simp only: of_int_le_iff)
    define j where "j = \<bar>k\<bar> - 2 ^ 53"
    have tj: "t - 2 = real_of_int j / 2 ^ 52"
      by (simp add: t j_def field_simps)
    have "\<bar>j\<bar> < 2 ^ 53"
      using kb kl by (simp add: j_def)
    then have v: "sub53 t 2 = real_of_int j / 2 ^ 52"
      unfolding sub53_def tj by (rule round53_dyadic)
    have "sub53 t 2 \<noteq> eps"
      using assms(3) v by (auto simp: on_grid52_def)
    moreover have "sub53 t 2 \<noteq> - eps"
    proof
      assume "sub53 t 2 = - eps"
      then have "eps = real_of_int (- j) / 2 ^ 52" using v by simp
      then show False using assms(3) unfolding on_grid52_def by blast
    qed
    ultimately show ?thesis by simp
  next
    case 3
    then have "2 powr real_of_int 1 \<le> t - 2" by simp
    then have "2 powr real_of_int 1 \<le> round53 (t - 2)" by (rule round53_ge_pow2)
    then have "2 \<le> sub53 t 2" by (simp add: sub53_def)
    then show ?thesis using assms(1,2) by linarith
  qed
  then show ?thesis by (simp add: t_def)
qed

text \<open>
  Claim C3. For every 2 x 2 matrix (a nonzero determinant is not even needed),
  \<open>classification\<close> returns one of its six classes and never raises the \<open>ValueError\<close> of
  its residual branch, whenever the tolerance lies strictly between zero and one and is
  not a multiple of \<open>2^-52\<close>, as is the case of the 53-bit number \<open>10**-9\<close>.
\<close>

theorem classification_returns_class:
  assumes "0 < eps" and "eps < 1" and "\<not> on_grid52 eps"
  shows "classification eps A \<in> set (map Inr classes) \<and>
         classification eps A \<noteq> Inl (ValueError ''something went wrong with classification'')"
proof -
  obtain m0 m1 m2 m3 where M: "normalised53 A = Mat2 m0 m1 m2 m3"
    by (cases "normalised53 A") simp
  have "sub53 \<bar>round53 (m0 + m3)\<bar> 2 \<noteq> eps \<and> sub53 \<bar>round53 (m0 + m3)\<bar> 2 \<noteq> - eps"
    using assms by (rule sub53_tau_off_eps)
  then have "sub53 \<bar>trace53 (normalised53 A)\<bar> 2 \<noteq> eps"
    and "sub53 \<bar>trace53 (normalised53 A)\<bar> 2 \<noteq> - eps"
    by (simp_all add: M add53_def)
  then have "classification eps A \<in> set (map Inr classes)"
    by (simp add: classification_def classes_def Let_def)
  then show ?thesis by (auto simp: classes_def)
qed

theorem classification_returns_class_witness:
  "0 < EPSILON_double \<and> EPSILON_double < 1 \<and> \<not> on_grid52 EPSILON_double \<and>
   classification EPSILON_double (Mat2 2 0 0 (1 / 2)) \<in> set (map Inr classes) \<and>
   classification EPSILON_double (Mat2 2 0 0 (1 / 2))
     \<noteq> Inl (ValueError ''something went wrong with classification'')"
  using classification_returns_class [of EPSILON_double "Mat2 2 0 0 (1 / 2)"]
    EPSILON_double_bounds EPSILON_double_off_grid
  by simp

text \<open>
  The condition on the tolerance is needed: with a tolerance of \<open>2^-30\<close>, a multiple of
  \<open>2^-52\<close>, the matrix \<open>[[2 + 2^-30, -1], [1, 0]]\<close> of determinant one has a computed
  \<open>tau - 2\<close> of exactly \<open>2^-30\<close> and takes the residual branch.
\<close>

lemma classification_residual_reached:
  "classification (1 / 2 ^ 30) (Mat2 (2 + 1 / 2 ^ 30) (- 1) 1 0)
     = Inl (ValueError ''something went wrong with classification'')"
proof -
  have r: "round53 (2147483649 / 1073741824) = 2147483649 / 1073741824"
    using round53_dyadic [of 2147483649 30] by simp
  have r1: "round53 (1073741825 / 1073741824) = 1073741825 / 1073741824"
    using round53_dyadic [of 1073741825 30] by simp
  have r2: "round53 (1 / 1073741824) = 1 / 1073741824"
    using round53_dyadic [of 1 30] by simp
  have "1 \<le> sqr53 (sub53 (2147483649 / 1073741824) 1)"
    by (rule sqr53_ge_one) (simp add: sub53_def r1)
  then have "1 \<le> add53 (add53 (add53 (sqr53 (sub53 (2147483649 / 1073741824) 1))
      (sqr53 (- 1))) (sqr53 1)) (sqr53 (sub53 0 1))"
    by (intro add53_ge_one sqr53_nonneg)
  then have ni: "\<not> near_identity (1 / 2 ^ 30) (Mat2 (2147483649 / 1073741824) (- 1) 1 0)"
    by simp
  show ?thesis
    using ni
    by (simp add: classification_def normalised53_def arith53_defs round53_values r r2
        del: near_identity.simps)
qed

section \<open>The classification rule\<close>




section \<open>Scaling the matrix\<close>

text \<open>
  C4. \<open>classification\<close> is not invariant under scaling by a negative scalar: the
  identity matrix is classified \<open>identity\<close>, and \<open>- 1\<close> times the identity matrix
  \<open>parabolic\<close>, since the identity test compares the normalised matrix with the
  identity matrix only and not with its negative.
\<close>

theorem classification_negated_identity:
  assumes "0 < eps" and "eps \<le> 8"
  shows "classification eps identity_matrix = Inr ''identity'' \<and>
         classification eps (scale (- 1) identity_matrix) = Inr ''parabolic''"
  using assms classification_identity_matrix [of eps] classification_minus_identity [of eps]
  by simp

theorem classification_negated_identity_witness:
  "classification (1 / 10 ^ 9) identity_matrix = Inr ''identity'' \<and>
   classification (1 / 10 ^ 9) (scale (- 1) identity_matrix) = Inr ''parabolic''"
  using classification_negated_identity [of "1 / 10 ^ 9"] by simp

section \<open>Translation length\<close>

lemma unbound_names:
  "''sqrt'' \<notin> set module_names" "''arccosh'' \<notin> set module_names"
  "''sign'' \<notin> set module_names" "''RDF'' \<notin> set module_names"
  by (simp_all add: module_names_def module_globals_def python_builtins_def)

lemma classification_examples:
  "classification EPSILON_double identity_matrix = Inr ''identity''"
  "classification EPSILON_double (Mat2 2 0 0 (1 / 2)) = Inr ''hyperbolic''"
  "classification EPSILON_double (Mat2 4 0 0 (- (1 / 4))) = Inr ''orientation-reversing hyperbolic''"
  by (simp_all add: classification_def EPSILON_double_def normalised53_def identity_matrix_def
      arith53_defs round53_values power_divide)

text \<open>
  Claim C1 does not hold of the code. \<open>translation_length\<close> begins by calling \<open>sqrt\<close>, a
  name that the module neither defines nor imports, so it raises \<open>NameError\<close> for every
  isometry: it returns no length for a hyperbolic one and does not raise the error of
  the claim for the others.
\<close>

theorem translation_length_unbound_sqrt:
  "translation_length eps A = Inl (NameError ''sqrt'')"
  by (simp add: translation_length_def translation_length_in_def unbound_names)

text \<open>
  In a module that binds \<open>sqrt\<close> and \<open>arccosh\<close>, the method returns the length of the
  claim for the class \<open>hyperbolic\<close>, and \<open>2 * arccosh(5/4)\<close> for \<open>[[2, 0], [0, 1/2]]\<close>.
  A second defect then shows: the method spells the other class
  \<open>oriention-reversing hyperbolic\<close>, a string \<open>classification\<close> never returns, so an
  orientation-reversing hyperbolic isometry gets the \<open>TypeError\<close> instead of a length.
\<close>

lemma tau_is_abs_trace:
  "sqrt ((trace (divide_by A (sqrt (sqrt ((det A)\<^sup>2)))))\<^sup>2) = \<bar>trace (normalise A)\<bar>"
  by (simp add: normalise_def)

lemma translation_length_in_hyperbolic:
  assumes "''sqrt'' \<in> set names" and "''arccosh'' \<in> set names" and "det A \<noteq> 0"
    and "classification eps A = Inr ''hyperbolic''"
  shows "translation_length_in names eps A = Inr (2 * arcosh (\<bar>trace (normalise A)\<bar> / 2))"
  using assms by (simp add: translation_length_in_def normalise_def)

lemma translation_length_in_orientation_reversing:
  assumes "''sqrt'' \<in> set names" and "det A \<noteq> 0"
    and "classification eps A = Inr ''orientation-reversing hyperbolic''"
  shows "translation_length_in names eps A
    = Inl (TypeError ''translation length is only defined for hyperbolic transformations'')"
  using assms by (simp add: translation_length_in_def)

lemma translation_length_in_examples:
  "translation_length_in (''sqrt'' # ''arccosh'' # module_names) EPSILON_double (Mat2 2 0 0 (1 / 2))
     = Inr (2 * arcosh (5 / 4))"
  "translation_length_in (''sqrt'' # ''arccosh'' # module_names) EPSILON_double
       (Mat2 4 0 0 (- (1 / 4)))
     = Inl (TypeError ''translation length is only defined for hyperbolic transformations'')"
proof -
  show "translation_length_in (''sqrt'' # ''arccosh'' # module_names) EPSILON_double
      (Mat2 2 0 0 (1 / 2)) = Inr (2 * arcosh (5 / 4))"
    using translation_length_in_hyperbolic [of "''sqrt'' # ''arccosh'' # module_names"
        "Mat2 2 0 0 (1 / 2)" EPSILON_double] classification_examples(2)
    by (simp add: normalise_def)
  show "translation_length_in (''sqrt'' # ''arccosh'' # module_names) EPSILON_double
      (Mat2 4 0 0 (- (1 / 4)))
    = Inl (TypeError ''translation length is only defined for hyperbolic transformations'')"
    using translation_length_in_orientation_reversing [of "''sqrt'' # ''arccosh'' # module_names"
        "Mat2 4 0 0 (- (1 / 4))" EPSILON_double] classification_examples(3)
    by simp
qed

section \<open>Fixed points\<close>

text \<open>\<open>fixed_point_set\<close> begins by calling \<open>sqrt\<close> too, and raises \<open>NameError\<close> for every
  isometry.\<close>

lemma fixed_point_set_unbound_sqrt:
  "fixed_point_set eps eigen A = Inl (NameError ''sqrt'')"
  by (simp add: fixed_point_set_def fixed_point_set_in_def unbound_names)

text \<open>
  Claim C5 does not hold of the code: for every isometry classified \<open>hyperbolic\<close>,
  \<open>fixed_point_set\<close> raises \<open>NameError\<close> and returns no fixed point.
\<close>

theorem fixed_point_set_hyperbolic:
  assumes "classification eps A = Inr ''hyperbolic''"
  shows "fixed_point_set eps eigen A = Inl (NameError ''sqrt'')"
  by (rule fixed_point_set_unbound_sqrt)

text \<open>C5 on the matrix \<open>[[2, 0], [0, 1/2]]\<close>, for a host that finds no eigenvector.\<close>

theorem fixed_point_set_hyperbolic_witness:
  "classification EPSILON_double (Mat2 2 0 0 (1 / 2)) = Inr ''hyperbolic'' \<and>
   fixed_point_set EPSILON_double (\<lambda>M. Inr []) (Mat2 2 0 0 (1 / 2)) = Inl (NameError ''sqrt'')"
  using fixed_point_set_hyperbolic [of EPSILON_double "Mat2 2 0 0 (1 / 2)" "\<lambda>M. Inr []"]
    classification_examples(2)
  by simp

text \<open>
  Claim C8 does not hold of the code: for every isometry classified \<open>identity\<close>,
  \<open>fixed_point_set\<close> raises \<open>NameError\<close>, not the \<open>ValueError\<close> of the claim.
\<close>

theorem fixed_point_set_identity:
  assumes "classification eps A = Inr ''identity''"
  shows "fixed_point_set eps eigen A = Inl (NameError ''sqrt'')"
  by (rule fixed_point_set_unbound_sqrt)

text \<open>C8 on the identity matrix.\<close>

theorem fixed_point_set_identity_witness:
  "classification EPSILON_double identity_matrix = Inr ''identity'' \<and>
   fixed_point_set EPSILON_double (\<lambda>M. Inr []) identity_matrix = Inl (NameError ''sqrt'')"
  using fixed_point_set_identity [of EPSILON_double identity_matrix "\<lambda>M. Inr []"]
    classification_examples(1)
  by simp

text \<open>
  In a module that binds \<open>sqrt\<close>, the method does what the two claims say: the
  \<open>ValueError\<close> for the class \<open>identity\<close>, and for the class \<open>hyperbolic\<close> the two points
  \<open>(a - d \<plusminus> sqrt(tau^2 - 4)) / (2c)\<close> when \<open>c\<close> is not zero, and \<open>b / (d - a)\<close> and infinity
  when it is, where \<open>[[a, b], [c, d]]\<close> is the exact normalised matrix.
\<close>

lemma fixed_point_set_in_identity:
  assumes "''sqrt'' \<in> set names" and "det A \<noteq> 0"
    and "classification eps A = Inr ''identity''"
  shows "fixed_point_set_in names eps eigen A
    = Inl (ValueError ''the identity transformation fixes the entire hyperbolic plane'')"
  using assms
  by (cases "divide_by A (sqrt \<bar>det A\<bar>)") (simp add: fixed_point_set_in_def Let_def)

lemma fixed_point_set_in_hyperbolic:
  assumes "''sqrt'' \<in> set names" and "det A \<noteq> 0"
    and "classification eps A = Inr ''hyperbolic''"
    and "normalise A = Mat2 a b c d"
  shows "c \<noteq> 0 \<Longrightarrow> fixed_point_set_in names eps eigen A
      = Inr [Finite ((complex_of_real (a - d) + csqrt (complex_of_real ((a + d)\<^sup>2 - 4)))
               / complex_of_real (2 * c)),
             Finite ((complex_of_real (a - d) - csqrt (complex_of_real ((a + d)\<^sup>2 - 4)))
               / complex_of_real (2 * c))]"
    and "c = 0 \<Longrightarrow> d \<noteq> a \<Longrightarrow> fixed_point_set_in names eps eigen A
      = Inr [Finite (complex_of_real (b / (d - a))), Infinity]"
proof -
  have M: "divide_by A (sqrt \<bar>det A\<bar>) = Mat2 a b c d"
    using assms(4) by (simp add: normalise_def)
  show "c \<noteq> 0 \<Longrightarrow> fixed_point_set_in names eps eigen A
      = Inr [Finite ((complex_of_real (a - d) + csqrt (complex_of_real ((a + d)\<^sup>2 - 4)))
               / complex_of_real (2 * c)),
             Finite ((complex_of_real (a - d) - csqrt (complex_of_real ((a + d)\<^sup>2 - 4)))
               / complex_of_real (2 * c))]"
    using assms(1,2,3) by (simp add: fixed_point_set_in_def M Let_def)
  show "c = 0 \<Longrightarrow> d \<noteq> a \<Longrightarrow> fixed_point_set_in names eps eigen A
      = Inr [Finite (complex_of_real (b / (d - a))), Infinity]"
    using assms(1,2,3) by (simp add: fixed_point_set_in_def M Let_def)
qed

section \<open>Products of isometries\<close>

lemma short_name_eq_iff: "short_name a = short_name b \<longleftrightarrow> a = b"
  by (cases a; cases b) simp_all

text \<open>
  Claim C6, as it holds of the code. The product of two isometries of different models
  raises the \<open>TypeError\<close>. For two isometries of one model the product matrix goes
  through the constructor: it is the matrix of the new isometry when the model's test
  accepts it, and otherwise the product raises what the test raises.
\<close>

theorem mul_isometries:
  "(domain A \<noteq> domain B \<longrightarrow>
      mul isometry_test A (IsometryOperand B) = Inl (TypeError ''not in the same model'')) \<and>
   (domain A = domain B \<and> isometry_test (domain A) (matrix A * matrix B) \<longrightarrow>
      mul isometry_test A (IsometryOperand B)
        = Inr (IsometryProduct \<lparr>domain = domain A, matrix = matrix A * matrix B\<rparr>)) \<and>
   (domain A = domain B \<and> \<not> isometry_test (domain A) (matrix A * matrix B) \<longrightarrow>
      mul isometry_test A (IsometryOperand B) = Inl InvalidIsometry)"
  by (simp add: mul_def new_isometry_def short_name_eq_iff)

text \<open>
  The squares the examples of the hyperboloid model need: the matrix with diagonal
  \<open>1.00001, 1, 1\<close> under the squared norm, and the one with diagonal \<open>1.0000000003, 1, 1\<close>
  under the largest entry.
\<close>

lemma hm_test_squared_example:
  "hm_test_squared EPSILON_double HM (Mat3 (100001 / 100000) 0 0 0 1 0 0 0 1)"
  "\<not> hm_test_squared EPSILON_double HM
       (Mat3 (100001 / 100000) 0 0 0 1 0 0 0 1 * Mat3 (100001 / 100000) 0 0 0 1 0 0 0 1)"
  by (simp_all add: hm_test_squared_def form_defect_def LORENTZ_GRAM_def EPSILON_double_def
      power2_eq_square)

lemma hm_test_entries_example:
  "hm_test_entries EPSILON_double HM (Mat3 (10000000003 / 10000000000) 0 0 0 1 0 0 0 1)"
  "\<not> hm_test_entries EPSILON_double HM
       (Mat3 (10000000003 / 10000000000) 0 0 0 1 0 0 0 1
        * Mat3 (10000000003 / 10000000000) 0 0 0 1 0 0 0 1)"
  by (simp_all add: hm_test_entries_def form_defect_def LORENTZ_GRAM_def EPSILON_double_def)

text \<open>
  C6 on the product \<open>B * A\<close> of the docstring of \<open>__mul__\<close>, on two isometries of
  different models, and on the square of an isometry of the hyperboloid model that the
  test of that model rejects.
\<close>

theorem mul_isometries_witness:
  "mul uhp_example_host \<lparr>domain = UHP, matrix = Mat2 3 1 1 2\<rparr>
       (IsometryOperand \<lparr>domain = UHP, matrix = Mat2 5 2 1 2\<rparr>) =
     Inr (IsometryProduct \<lparr>domain = UHP, matrix = Mat2 16 8 7 6\<rparr>) \<and>
   mul uhp_example_host \<lparr>domain = UHP, matrix = Mat2 3 1 1 2\<rparr>
       (IsometryOperand \<lparr>domain = PD, matrix = Mat2 5 2 1 2\<rparr>) =
     Inl (TypeError ''not in the same model'') \<and>
   mul (hm_test_squared EPSILON_double)
       \<lparr>domain = HM, matrix = Mat3 (100001 / 100000) 0 0 0 1 0 0 0 1\<rparr>
       (IsometryOperand \<lparr>domain = HM, matrix = Mat3 (100001 / 100000) 0 0 0 1 0 0 0 1\<rparr>) =
     Inl InvalidIsometry"
  using mul_isometries [of "\<lparr>domain = UHP, matrix = Mat2 3 1 1 2\<rparr>"
          "\<lparr>domain = UHP, matrix = Mat2 5 2 1 2\<rparr>" uhp_example_host]
        mul_isometries [of "\<lparr>domain = UHP, matrix = Mat2 3 1 1 2\<rparr>"
          "\<lparr>domain = PD, matrix = Mat2 5 2 1 2\<rparr>" uhp_example_host]
        mul_isometries [of "\<lparr>domain = HM, matrix = Mat3 (100001 / 100000) 0 0 0 1 0 0 0 1\<rparr>"
          "\<lparr>domain = HM, matrix = Mat3 (100001 / 100000) 0 0 0 1 0 0 0 1\<rparr>"
          "hm_test_squared EPSILON_double"]
        hm_test_squared_example(2)
  by (simp add: uhp_example_host_def)

text \<open>
  Claim C6 as the specification words it does not hold: the product of two valid
  isometries of one model need not be an isometry. In the hyperboloid model a matrix is
  valid when it preserves the form up to \<open>EPSILON\<close>. The matrix with diagonal
  \<open>1.00001, 1, 1\<close> is valid when the squared norm of the defect is compared with
  \<open>EPSILON\<close>, and the one with diagonal \<open>1.0000000003, 1, 1\<close> when the largest entry of
  the defect is; the square of either is not, so multiplying the isometry by itself
  raises the error of the test.
\<close>

theorem mul_valid_isometries_counterexample:
  "hm_test_squared EPSILON_double HM (Mat3 (100001 / 100000) 0 0 0 1 0 0 0 1) \<and>
   mul (hm_test_squared EPSILON_double)
       \<lparr>domain = HM, matrix = Mat3 (100001 / 100000) 0 0 0 1 0 0 0 1\<rparr>
       (IsometryOperand \<lparr>domain = HM, matrix = Mat3 (100001 / 100000) 0 0 0 1 0 0 0 1\<rparr>) =
     Inl InvalidIsometry \<and>
   hm_test_entries EPSILON_double HM (Mat3 (10000000003 / 10000000000) 0 0 0 1 0 0 0 1) \<and>
   mul (hm_test_entries EPSILON_double)
       \<lparr>domain = HM, matrix = Mat3 (10000000003 / 10000000000) 0 0 0 1 0 0 0 1\<rparr>
       (IsometryOperand \<lparr>domain = HM, matrix = Mat3 (10000000003 / 10000000000) 0 0 0 1 0 0 0 1\<rparr>) =
     Inl InvalidIsometry"
  using hm_test_squared_example hm_test_entries_example
  by (simp add: mul_def new_isometry_def)

text \<open>
  In the upper half plane, where a matrix is valid when its determinant is not zero,
  the product of two valid isometries is always accepted, and its matrix is the product
  of the two matrices.
\<close>

lemma det_times: "det (A * B) = det A * det B"
  by (cases A; cases B) (simp add: algebra_simps)

lemma mul_isometries_UHP:
  assumes "domain A = domain B" and "uhp_example_host (domain A) (matrix A)"
    and "uhp_example_host (domain B) (matrix B)"
  shows "mul uhp_example_host A (IsometryOperand B)
    = Inr (IsometryProduct \<lparr>domain = domain A, matrix = matrix A * matrix B\<rparr>)"
  using assms by (simp add: mul_def new_isometry_def uhp_example_host_def det_times)

text \<open>
  The product with a point or with a geodesic of the same model begins by reading
  \<open>self._model\<close>, which no isometry has.
\<close>

lemma mul_point_or_geodesic:
  "point_domain p = domain A \<Longrightarrow>
     mul isometry_test A (PointOperand p) = Inl (AttributeError ''_model'')"
  "geodesic_domain g = domain A \<Longrightarrow>
     mul isometry_test A (GeodesicOperand g) = Inl (AttributeError ''_model'')"
  by (simp_all add: mul_def)

text \<open>
  C10. For an operand that is no isometry, point or geodesic and whose model name is the
  isometry's, \<open>__mul__\<close> returns \<open>None\<close> and raises nothing.
\<close>

theorem mul_other_returns_None:
  assumes "name = short_name (domain A)"
  shows "mul h A (OtherOperand name) = Inr NoneProduct"
  using assms by (simp add: mul_def)

text \<open>C10 on an operand that answers \<open>UHP\<close>.\<close>

theorem mul_other_returns_None_witness:
  "mul uhp_example_host \<lparr>domain = UHP, matrix = Mat2 5 2 1 2\<rparr> (OtherOperand ''UHP'') = Inr NoneProduct"
  using mul_other_returns_None [of "''UHP''" "\<lparr>domain = UHP, matrix = Mat2 5 2 1 2\<rparr>" uhp_example_host]
  by simp

section \<open>Equality of isometries\<close>

text \<open>
  Claim C7 does not hold of the code. \<open>__eq__\<close> compares \<open>abs\<close> of the difference of the
  two matrices with \<open>EPSILON\<close>, and \<open>abs\<close> of a matrix is no distance. Where the host's
  matrices define no absolute value, every comparison of two isometries raises
  \<open>TypeError\<close>. Where the absolute value of a matrix is its determinant, two isometries
  of one model are equal whenever the determinant of the difference of their matrices is
  below \<open>EPSILON\<close>: the isometry of the upper half plane with matrix
  \<open>[[2, 0], [0, 1/2]]\<close> equals the identity, the difference \<open>[[1, 0], [0, -1/2]]\<close> having
  the determinant \<open>-1/2\<close>.
\<close>

theorem eq_isometry_abs_of_matrix:
  "eq_isometry is_isometry_group_projective abs_is_unsupported eps A B
     = Inl (TypeError ''bad operand type for abs()'') \<and>
   eq_isometry is_isometry_group_projective abs_is_determinant eps A B
     = Inr (domain A = domain B \<and>
            (det (matrix A - matrix B) < eps \<or>
             is_isometry_group_projective (domain A) \<and> det (matrix A + matrix B) < eps)) \<and>
   eq_isometry is_isometry_group_projective abs_is_determinant EPSILON_double
       \<lparr>domain = UHP, matrix = Mat2 2 0 0 (1 / 2)\<rparr> \<lparr>domain = UHP, matrix = identity_matrix\<rparr>
     = Inr True"
  by (auto simp: eq_isometry_def abs_is_unsupported_def abs_is_determinant_def Let_def
      identity_matrix_def EPSILON_double_def)

section \<open>Properties of is_abelian\<close>

text \<open>
  C9. \<open>is_abelian\<close> raises the \<open>NotImplementedError\<close> of an infinite number of generators
  when the generators are not in \<open>FiniteEnumeratedSets()\<close>, and otherwise returns whether
  the bracket of every ordered pair of generators is zero.
\<close>

theorem is_abelian_spec:
  "(lie_algebra_generators L = NotFiniteEnumerated \<longrightarrow>
      is_abelian L = Inl (NotImplementedError ''infinite number of generators'')) \<and>
   (\<forall>G. lie_algebra_generators L = FiniteEnumerated G \<longrightarrow>
      is_abelian L = Inr (\<forall>x \<in> set G. \<forall>y \<in> set G. bracket L x y = zero L))"
  by (simp add: is_abelian_def list_all_iff)

text \<open>C9 on 2 x 2 matrices under the commutator: two generators that do not commute, two
  that do, and a family that is not finitely enumerated.\<close>

theorem is_abelian_spec_witness:
  "is_abelian \<lparr>lie_algebra_generators = FiniteEnumerated [Mat2 0 1 0 0, Mat2 0 0 1 0],
               bracket = (\<lambda>x y. x * y - y * x), zero = 0\<rparr> = Inr False \<and>
   is_abelian \<lparr>lie_algebra_generators = FiniteEnumerated [Mat2 1 0 0 0, Mat2 0 0 0 1],
               bracket = (\<lambda>x y. x * y - y * x), zero = 0\<rparr> = Inr True \<and>
   is_abelian \<lparr>lie_algebra_generators = NotFiniteEnumerated,
               bracket = (\<lambda>x y. x * y - y * x), zero = (0::mat2)\<rparr> =
     Inl (NotImplementedError ''infinite number of generators'')"
  using is_abelian_spec [of "\<lparr>lie_algebra_generators = FiniteEnumerated [Mat2 0 1 0 0, Mat2 0 0 1 0],
               bracket = (\<lambda>x y. x * y - y * x), zero = 0\<rparr>"]
        is_abelian_spec [of "\<lparr>lie_algebra_generators = FiniteEnumerated [Mat2 1 0 0 0, Mat2 0 0 0 1],
               bracket = (\<lambda>x y. x * y - y * x), zero = 0\<rparr>"]
        is_abelian_spec [of "\<lparr>lie_algebra_generators = NotFiniteEnumerated,
               bracket = (\<lambda>x y. x * y - y * x), zero = (0::mat2)\<rparr>"]
  by (simp add: zero_mat2_def)

end
